theory Spec2Isabelle
  imports Complex_Main
begin

section \<open>AM modulation script: data model\<close>

text \<open>
  The program is one straight-line script (\<^verbatim>\<open>graph.py\<close>): it fixes six literal
  parameters, builds a time grid, three signals and two envelopes, and then computes a
  one-sided magnitude spectrum. The model takes the six literals as a record of
  parameters, so that statements can range over all parameter values; the script itself
  is the instance \<open>source_params\<close> below.

  Python and numpy floats are idealised as real (and complex) numbers: rounding and
  overflow are not modelled. The one place where this idealisation would silently change
  the control flow of the arithmetic, a numpy division by a zero float, is written out as
  the outcome \<open>NonFinite\<close> (numpy returns \<^verbatim>\<open>inf\<close>/\<^verbatim>\<open>nan\<close> entries and only
  warns). Exceptions are values of \<open>py_error\<close>.
\<close>

datatype py_error = ZeroDivisionError | ValueError | IndexError

datatype failure = Raised py_error | NonFinite

record params =
  E_m :: real
  E_c :: real
  omega_m :: real
  omega_c :: real
  duration :: real
  samples :: int

definition source_params :: params where
  "source_params =
     \<lparr>E_m = 100, E_c = 150, omega_m = 200, omega_c = 3000, duration = 1 / 10, samples = 1000\<rparr>"

subsection \<open>numpy array arithmetic\<close>

text \<open>A one-dimensional float array is a list of reals; a scalar broadcasts over it.\<close>

definition scal :: "real \<Rightarrow> real list \<Rightarrow> real list" where
  \<comment> \<open>\<^verbatim>\<open>c * a\<close>, scalar times array\<close>
  "scal c a = map (\<lambda>x. c * x) a"

definition sadd :: "real \<Rightarrow> real list \<Rightarrow> real list" where
  \<comment> \<open>\<^verbatim>\<open>c + a\<close>, scalar plus array\<close>
  "sadd c a = map (\<lambda>x. c + x) a"

definition np_sin :: "real list \<Rightarrow> real list" where
  "np_sin a = map sin a"

definition aneg :: "real list \<Rightarrow> real list" where
  \<comment> \<open>\<^verbatim>\<open>-a\<close>\<close>
  "aneg a = map uminus a"

definition amul :: "real list \<Rightarrow> real list \<Rightarrow> real list" where
  \<comment> \<open>\<^verbatim>\<open>a * b\<close>, elementwise; in this script both operands are built from the same
      time grid, so their shapes agree and numpy raises no broadcasting error\<close>
  "amul a b = map2 (\<lambda>x y. x * y) a b"

subsection \<open>Library routines used by the script\<close>

definition linspace :: "real \<Rightarrow> real \<Rightarrow> int \<Rightarrow> failure + real list" where
  \<comment> \<open>\<^verbatim>\<open>np.linspace(start, stop, num)\<close> with the default \<^verbatim>\<open>endpoint=True\<close>: a negative
      \<^verbatim>\<open>num\<close> raises ValueError; otherwise \<^verbatim>\<open>arange(num)\<close> is scaled by the step
      \<^verbatim>\<open>(stop - start) / (num - 1)\<close>, shifted by \<^verbatim>\<open>start\<close>, and the last entry is
      overwritten by \<^verbatim>\<open>stop\<close> when \<^verbatim>\<open>num > 1\<close>\<close>
  "linspace start stop num =
     (if num < 0 then Inl (Raised ValueError)
      else
        let dv = num - 1;
            y = map real [0..<nat num];
            delta = stop - start;
            y1 = (if dv > 0
                  then (let step = delta / real_of_int dv
                        in if step = 0 then map (\<lambda>v. v / real_of_int dv * delta) y
                           else map (\<lambda>v. v * step) y)
                  else map (\<lambda>v. v * delta) y);
            y2 = map (\<lambda>v. v + start) y1
        in Inr (if num > 1 then y2[nat num - 1 := stop] else y2))"

definition fftfreq :: "nat \<Rightarrow> real \<Rightarrow> failure + real list" where
  \<comment> \<open>\<^verbatim>\<open>fftfreq(n, d)\<close>: the integers \<^verbatim>\<open>0 .. (n-1)//2\<close> followed by
      \<^verbatim>\<open>-(n//2) .. -1\<close>, each multiplied by \<^verbatim>\<open>val = 1.0 / (n * d)\<close>. When
      \<^verbatim>\<open>n * d\<close> is zero \<^verbatim>\<open>val\<close> is infinite and every entry of a nonempty result is
      \<^verbatim>\<open>inf\<close> or \<^verbatim>\<open>nan\<close>\<close>
  "fftfreq n d =
     (if real n * d = 0 then (if n = 0 then Inr [] else Inl NonFinite)
      else
        let val = 1 / (real n * d);
            p1 = [0 .. (int n - 1) div 2];
            p2 = [- (int n div 2) .. - 1]
        in Inr (map (\<lambda>k. real_of_int k * val) (p1 @ p2)))"

definition dft :: "complex list \<Rightarrow> nat \<Rightarrow> complex" where
  \<comment> \<open>bin \<open>k\<close> of the discrete Fourier transform,
      \<^verbatim>\<open>y[k] = sum_n x[n] * exp(-2j*pi*k*n/N)\<close>\<close>
  "dft x k =
     (\<Sum>n = 0..<length x. x ! n * cis (- (2 * pi * real k * real n / real (length x))))"

definition fft :: "complex list \<Rightarrow> failure + complex list" where
  \<comment> \<open>\<^verbatim>\<open>scipy.fft.fft\<close> of a one-dimensional array: the un-normalised, two-sided
      transform; an empty input raises ValueError\<close>
  "fft x = (if x = [] then Inl (Raised ValueError) else Inr (map (dft x) [0..<length x]))"

definition idft :: "complex list \<Rightarrow> nat \<Rightarrow> complex" where
  \<comment> \<open>entry \<open>m\<close> of the inverse transform,
      \<^verbatim>\<open>x[m] = (1/N) * sum_k y[k] * exp(2j*pi*k*m/N)\<close>\<close>
  "idft y m =
     (1 / of_nat (length y)) *
     (\<Sum>k = 0..<length y. y ! k * cis (2 * pi * real k * real m / real (length y)))"

definition ifft :: "complex list \<Rightarrow> failure + complex list" where
  \<comment> \<open>\<^verbatim>\<open>scipy.fft.ifft\<close>, the inverse of \<open>fft\<close>. The script never calls it; it is the
      inverse transform that the round-trip property speaks about\<close>
  "ifft y = (if y = [] then Inl (Raised ValueError) else Inr (map (idft y) [0..<length y]))"

section \<open>The script\<close>

subsection \<open>Parameters and derived scalars (lines 8 to 21)\<close>

definition f_m :: "params \<Rightarrow> real" where
  "f_m p = omega_m p / (2 * pi)"

definition f_c :: "params \<Rightarrow> real" where
  "f_c p = omega_c p / (2 * pi)"

definition modulation_index :: "params \<Rightarrow> failure + real" where
  \<comment> \<open>Python's \<^verbatim>\<open>/\<close> on plain numbers raises ZeroDivisionError for a zero divisor\<close>
  "modulation_index p =
     (if E_c p = 0 then Inl (Raised ZeroDivisionError) else Inr (E_m p / E_c p))"

definition t_grid :: "params \<Rightarrow> failure + real list" where
  \<comment> \<open>the array \<^verbatim>\<open>t\<close>\<close>
  "t_grid p = linspace 0 (duration p) (samples p)"

subsection \<open>Signal generation (lines 27 to 37)\<close>

definition baseband_signal :: "params \<Rightarrow> real list \<Rightarrow> real list" where
  "baseband_signal p t = scal (E_m p) (np_sin (scal (omega_m p) t))"

definition carrier_signal :: "params \<Rightarrow> real list \<Rightarrow> real list" where
  "carrier_signal p t = scal (E_c p) (np_sin (scal (omega_c p) t))"

definition modulated_signal :: "params \<Rightarrow> real list \<Rightarrow> real list" where
  "modulated_signal p t =
     amul (sadd (E_c p) (baseband_signal p t)) (np_sin (scal (omega_c p) t))"

definition upper_envelope :: "params \<Rightarrow> real list \<Rightarrow> real list" where
  "upper_envelope p t = sadd (E_c p) (baseband_signal p t)"

definition lower_envelope :: "params \<Rightarrow> real list \<Rightarrow> real list" where
  "lower_envelope p t = aneg (sadd (E_c p) (baseband_signal p t))"

subsection \<open>Frequency spectrum (lines 121 to 127)\<close>

definition T_interval :: "real list \<Rightarrow> failure + real" where
  \<comment> \<open>\<^verbatim>\<open>T = t[1] - t[0]\<close>; indexing past the end of a numpy array raises IndexError\<close>
  "T_interval t = (if length t < 2 then Inl (Raised IndexError) else Inr (t ! 1 - t ! 0))"

definition frequencies :: "real list \<Rightarrow> failure + real list" where
  \<comment> \<open>\<^verbatim>\<open>fftfreq(N, T)[:N//2]\<close> with \<^verbatim>\<open>N = len(t)\<close>\<close>
  "frequencies t =
     (case T_interval t of
        Inl e \<Rightarrow> Inl e
      | Inr T \<Rightarrow>
          (case fftfreq (length t) T of
             Inl e \<Rightarrow> Inl e
           | Inr fr \<Rightarrow> Inr (take (length t div 2) fr)))"

definition modulated_fft :: "params \<Rightarrow> real list \<Rightarrow> failure + complex list" where
  "modulated_fft p t = fft (map complex_of_real (modulated_signal p t))"

definition modulated_magnitude :: "params \<Rightarrow> real list \<Rightarrow> failure + real list" where
  \<comment> \<open>\<^verbatim>\<open>(2.0 / N) * np.abs(modulated_fft[:N//2])\<close>; \<^verbatim>\<open>N = len(t)\<close> is positive
      whenever \<open>modulated_fft\<close> returned\<close>
  "modulated_magnitude p t =
     (case modulated_fft p t of
        Inl e \<Rightarrow> Inl e
      | Inr X \<Rightarrow>
          Inr (scal (2 / real (length t)) (map cmod (take (length t div 2) X))))"

subsection \<open>The whole run\<close>

record workspace =
  w_f_m :: real
  w_f_c :: real
  w_modulation_index :: real
  w_t :: "real list"
  w_baseband_signal :: "real list"
  w_carrier_signal :: "real list"
  w_modulated_signal :: "real list"
  w_upper_envelope :: "real list"
  w_lower_envelope :: "real list"
  w_frequencies :: "real list"
  w_modulated_magnitude :: "real list"

definition script :: "params \<Rightarrow> failure + workspace" where
  \<comment> \<open>the statements in source order, stopping at the first exception or at the
      non-finite frequency axis; plotting and printing are left out\<close>
  "script p =
     (case modulation_index p of
        Inl e \<Rightarrow> Inl e
      | Inr m \<Rightarrow>
     (case t_grid p of
        Inl e \<Rightarrow> Inl e
      | Inr t \<Rightarrow>
     (case frequencies t of
        Inl e \<Rightarrow> Inl e
      | Inr fr \<Rightarrow>
     (case modulated_magnitude p t of
        Inl e \<Rightarrow> Inl e
      | Inr mag \<Rightarrow>
          Inr \<lparr>w_f_m = f_m p, w_f_c = f_c p, w_modulation_index = m, w_t = t,
               w_baseband_signal = baseband_signal p t,
               w_carrier_signal = carrier_signal p t,
               w_modulated_signal = modulated_signal p t,
               w_upper_envelope = upper_envelope p t,
               w_lower_envelope = lower_envelope p t,
               w_frequencies = fr, w_modulated_magnitude = mag\<rparr>))))"

section \<open>Properties\<close>

subsection \<open>The time grid returned by \<open>linspace\<close>\<close>

lemma linspace_neg: "num < 0 \<Longrightarrow> linspace a b num = Inl (Raised ValueError)"
  by (simp add: linspace_def)

lemma linspace_closed:
  assumes "2 \<le> num"
  shows "linspace a b num =
         Inr (map (\<lambda>i. a + real i * (b - a) / real_of_int (num - 1)) [0..<nat num])"
proof -
  let ?n = "nat num"
  let ?d = "real_of_int (num - 1)"
  have d: "?d = real (?n - 1)" "?d > 0" "?n \<ge> 2" using assms by auto
  show ?thesis
  proof (cases "(b - a) / ?d = 0")
    case True
    then have ba: "b = a" using d by simp
    show ?thesis using assms d
      by (auto simp add: linspace_def Let_def ba intro!: nth_equalityI simp: nth_list_update)
  next
    case False
    have last: "a + real (?n - 1) * (b - a) / ?d = b" using d by simp
    show ?thesis using assms d False last
      by (auto simp add: linspace_def Let_def intro!: nth_equalityI simp: nth_list_update algebra_simps)
  qed
qed

lemma linspace_small:
  "linspace a b 0 = Inr []" "linspace a b 1 = Inr [a]"
  by (simp_all add: linspace_def Let_def)

subsection \<open>Entries of the generated signals\<close>

lemma length_signals [simp]:
  "length (baseband_signal p t) = length t"
  "length (carrier_signal p t) = length t"
  "length (modulated_signal p t) = length t"
  "length (upper_envelope p t) = length t"
  "length (lower_envelope p t) = length t"
  by (simp_all add: baseband_signal_def carrier_signal_def modulated_signal_def
      upper_envelope_def lower_envelope_def scal_def sadd_def np_sin_def aneg_def amul_def)

lemma nth_baseband_signal:
  "i < length t \<Longrightarrow> baseband_signal p t ! i = E_m p * sin (omega_m p * t ! i)"
  by (simp add: baseband_signal_def scal_def np_sin_def)

lemma nth_carrier_signal:
  "i < length t \<Longrightarrow> carrier_signal p t ! i = E_c p * sin (omega_c p * t ! i)"
  by (simp add: carrier_signal_def scal_def np_sin_def)

lemma nth_upper_envelope:
  "i < length t \<Longrightarrow> upper_envelope p t ! i = E_c p + baseband_signal p t ! i"
  by (simp add: upper_envelope_def sadd_def)

lemma nth_lower_envelope:
  "i < length t \<Longrightarrow> lower_envelope p t ! i = - (E_c p + baseband_signal p t ! i)"
  by (simp add: lower_envelope_def sadd_def aneg_def)

lemma nth_modulated_signal:
  "i < length t \<Longrightarrow>
   modulated_signal p t ! i = (E_c p + baseband_signal p t ! i) * sin (omega_c p * t ! i)"
  by (simp add: modulated_signal_def amul_def sadd_def scal_def np_sin_def)

lemma t_grid_returns:
  assumes "0 \<le> samples p"
  shows "\<exists>t. t_grid p = Inr t \<and> length t = nat (samples p)"
proof -
  consider "samples p = 0" | "samples p = 1" | "2 \<le> samples p" using assms by linarith
  then show ?thesis
    by cases (simp_all add: t_grid_def linspace_small linspace_closed)
qed

lemma t_grid_closed:
  "2 \<le> samples p \<Longrightarrow>
   t_grid p = Inr (map (\<lambda>i. real i * duration p / real_of_int (samples p - 1))
                      [0..<nat (samples p)])"
  by (simp add: t_grid_def linspace_closed)

subsection \<open>The frequency axis and the magnitude spectrum in closed form\<close>

lemma fftfreq_take:
  assumes "0 < n" and "d \<noteq> 0"
  shows "\<exists>fr. fftfreq n d = Inr fr \<and>
              take (n div 2) fr = map (\<lambda>k. real k * (1 / (real n * d))) [0..<n div 2]"
proof -
  define p1 where "p1 = [0 .. (int n - 1) div 2]"
  define p2 where "p2 = [- (int n div 2) .. - 1]"
  define f where "f = (\<lambda>k. real_of_int k * (1 / (real n * d)))"
  have nz: "real n * d \<noteq> 0" using assms by simp
  have fr: "fftfreq n d = Inr (map f (p1 @ p2))"
    using nz by (simp add: fftfreq_def Let_def p1_def p2_def f_def)
  have len: "n div 2 \<le> length p1"
    using assms(1) by (simp add: p1_def)
  have nth: "p1 ! k = int k" if "k < n div 2" for k
  proof -
    have "0 + int k \<le> (int n - 1) div 2" using that by linarith
    then show ?thesis unfolding p1_def by (subst nth_upto) simp_all
  qed
  have "take (n div 2) (map f (p1 @ p2)) = map (\<lambda>k. real k * (1 / (real n * d))) [0..<n div 2]"
  proof (rule nth_equalityI)
    show "length (take (n div 2) (map f (p1 @ p2))) =
          length (map (\<lambda>k. real k * (1 / (real n * d))) [0..<n div 2])"
      using len by simp
  next
    fix i assume "i < length (take (n div 2) (map f (p1 @ p2)))"
    then have i: "i < n div 2" by simp
    with len have "i < length p1" by simp
    then show "take (n div 2) (map f (p1 @ p2)) ! i =
               map (\<lambda>k. real k * (1 / (real n * d))) [0..<n div 2] ! i"
      using i nth [OF i] by (simp add: nth_append f_def)
  qed
  with fr show ?thesis by simp
qed

lemma frequencies_closed:
  assumes "2 \<le> length t" and "t ! 1 - t ! 0 \<noteq> 0"
  shows "frequencies t =
         Inr (map (\<lambda>k. real k * (1 / (real (length t) * (t ! 1 - t ! 0))))
                  [0..<length t div 2])"
proof -
  have "0 < length t" using assms(1) by linarith
  from fftfreq_take [OF this assms(2)] obtain fr
    where "fftfreq (length t) (t ! 1 - t ! 0) = Inr fr"
      and "take (length t div 2) fr =
           map (\<lambda>k. real k * (1 / (real (length t) * (t ! 1 - t ! 0)))) [0..<length t div 2]"
    by blast
  then show ?thesis using assms(1) by (auto simp add: frequencies_def T_interval_def)
qed

lemma frequencies_short: "length t < 2 \<Longrightarrow> frequencies t = Inl (Raised IndexError)"
  by (simp add: frequencies_def T_interval_def)

lemma frequencies_zero_step:
  "2 \<le> length t \<Longrightarrow> t ! 1 - t ! 0 = 0 \<Longrightarrow> frequencies t = Inl NonFinite"
  by (auto simp add: frequencies_def T_interval_def fftfreq_def)

lemma modulated_magnitude_closed:
  assumes "t \<noteq> []"
  shows "modulated_magnitude p t =
         Inr (map (\<lambda>k. 2 / real (length t) *
                       cmod (dft (map complex_of_real (modulated_signal p t)) k))
                  [0..<length t div 2])"
  using assms
  by (simp add: modulated_magnitude_def modulated_fft_def fft_def scal_def take_map
      modulated_signal_def amul_def sadd_def baseband_signal_def np_sin_def)

lemma t_grid_nth:
  assumes "2 \<le> samples p"
  shows "\<exists>t. t_grid p = Inr t \<and> length t = nat (samples p) \<and>
             (\<forall>i < nat (samples p).
                  t ! i = real i * (duration p / real (nat (samples p) - 1)))"
proof -
  have "real_of_int (samples p - 1) = real (nat (samples p) - 1)"
    using assms by auto
  then show ?thesis
    using assms by (simp add: t_grid_closed)
qed

lemma t_grid_step:
  assumes "2 \<le> samples p"
  shows "\<exists>t. t_grid p = Inr t \<and> length t = nat (samples p) \<and>
             t ! 1 - t ! 0 = duration p / real (nat (samples p) - 1)"
proof -
  from t_grid_nth [OF assms] obtain t where t: "t_grid p = Inr t" "length t = nat (samples p)"
    and nth: "\<And>i. i < nat (samples p) \<Longrightarrow>
                   t ! i = real i * (duration p / real (nat (samples p) - 1))"
    by blast
  have "0 < nat (samples p)" "1 < nat (samples p)" using assms by auto
  then have "t ! 0 = 0" "t ! 1 = duration p / real (nat (samples p) - 1)"
    using nth [of 0] nth [of 1] by simp_all
  with t show ?thesis by simp
qed

lemma dft_zero_bin: "dft (map complex_of_real x) 0 = complex_of_real (sum_list x)"
  by (simp add: dft_def sum_list_sum_nth)

subsection \<open>The inverse transform undoes the transform\<close>

lemma cis_eq_one_small:
  assumes "cis (2 * pi * real_of_int d / real n) = 1" and "\<bar>d\<bar> < int n"
  shows "d = 0"
proof -
  have n: "0 < n" using assms(2) by (cases n) auto
  from assms(1) have "cos (2 * pi * real_of_int d / real n) = 1"
    by (simp add: complex_eq_iff)
  then obtain z :: int where z: "2 * pi * real_of_int d / real n = real_of_int z * 2 * pi"
    unfolding cos_one_2pi_int by blast
  then have "real_of_int d = real_of_int z * real n"
    using n by (simp add: field_simps)
  then have "real_of_int d = real_of_int (z * int n)" by simp
  then have dz: "d = z * int n" by (simp only: of_int_eq_iff)
  show ?thesis
  proof (rule ccontr)
    assume "d \<noteq> 0"
    with dz have "z \<noteq> 0" by auto
    then have "1 \<le> \<bar>z\<bar>" by linarith
    then have "int n \<le> \<bar>z\<bar> * int n" using n by (simp add: mult_le_cancel_right1)
    also have "\<dots> = \<bar>d\<bar>" by (simp add: dz abs_mult)
    finally show False using assms(2) by simp
  qed
qed

lemma unity_root_sum:
  assumes "m < n" and "j < n"
  shows "(\<Sum>k = 0..<n. cis (2 * pi * real k * real m / real n) *
                        cis (- (2 * pi * real k * real j / real n))) =
         (if m = j then of_nat n else 0)"
proof -
  define d where "d = int m - int j"
  define w where "w = cis (2 * pi * real_of_int d / real n)"
  have n: "0 < n" using assms(1) by simp
  have pw: "cis (2 * pi * real k * real m / real n) *
              cis (- (2 * pi * real k * real j / real n)) = w ^ k" for k
  proof -
    have "2 * pi * real k * real m / real n + - (2 * pi * real k * real j / real n) =
          (2 * pi * real k * real m - 2 * pi * real k * real j) / real n"
      by (simp add: diff_divide_distrib)
    also have "2 * pi * real k * real m - 2 * pi * real k * real j =
               real k * (2 * pi * real_of_int d)"
      by (simp add: d_def algebra_simps)
    finally have "2 * pi * real k * real m / real n + - (2 * pi * real k * real j / real n) =
          real k * (2 * pi * real_of_int d / real n)"
      by simp
    then show ?thesis by (simp add: w_def DeMoivre cis_mult)
  qed
  have sum: "(\<Sum>k = 0..<n. cis (2 * pi * real k * real m / real n) *
                        cis (- (2 * pi * real k * real j / real n))) = (\<Sum>k<n. w ^ k)"
    by (simp add: pw atLeast0LessThan)
  show ?thesis
  proof (cases "m = j")
    case True
    then have "w = 1" by (simp add: w_def d_def)
    with True sum show ?thesis by simp
  next
    case False
    have "\<bar>d\<bar> < int n" using assms by (simp add: d_def)
    moreover have "d \<noteq> 0" using False by (simp add: d_def)
    ultimately have w1: "w \<noteq> 1" using cis_eq_one_small [of d n] by (auto simp add: w_def)
    have "w ^ n = cis (2 * pi * real_of_int d)"
      using n by (simp add: w_def DeMoivre)
    also have "\<dots> = 1" by (rule cis_multiple_2pi) simp
    finally have "w ^ n = 1" .
    with w1 have "(\<Sum>k<n. w ^ k) = 0" by (simp add: geometric_sum)
    with False sum show ?thesis by simp
  qed
qed

lemma idft_dft:
  assumes "m < length x"
  shows "idft (map (dft x) [0..<length x]) m = x ! m"
proof -
  define n where "n = length x"
  have n: "0 < n" "m < n" using assms unfolding n_def by linarith+
  have bin: "map (dft x) [0..<n] ! k * cis (2 * pi * real k * real m / real n) =
        (\<Sum>j = 0..<n.
            x ! j * (cis (2 * pi * real k * real m / real n) *
                     cis (- (2 * pi * real k * real j / real n))))" if "k < n" for k
  proof -
    define c where "c = cis (2 * pi * real k * real m / real n)"
    have "map (dft x) [0..<n] ! k = dft x k" using that by simp
    then have "map (dft x) [0..<n] ! k * c =
               (\<Sum>j = 0..<n. x ! j * cis (- (2 * pi * real k * real j / real n)) * c)"
      by (simp add: dft_def n_def [symmetric] sum_distrib_right)
    also have "\<dots> = (\<Sum>j = 0..<n. x ! j * (c * cis (- (2 * pi * real k * real j / real n))))"
      by (intro sum.cong refl) (simp only: mult.assoc mult.commute [of c])
    finally show ?thesis unfolding c_def .
  qed
  have "(\<Sum>k = 0..<n. map (dft x) [0..<n] ! k * cis (2 * pi * real k * real m / real n)) =
        (\<Sum>k = 0..<n. \<Sum>j = 0..<n.
            x ! j * (cis (2 * pi * real k * real m / real n) *
                     cis (- (2 * pi * real k * real j / real n))))"
    by (rule sum.cong) (simp_all only: bin atLeastLessThan_iff)
  also have "\<dots> = (\<Sum>j = 0..<n. \<Sum>k = 0..<n.
            x ! j * (cis (2 * pi * real k * real m / real n) *
                     cis (- (2 * pi * real k * real j / real n))))"
    by (rule sum.swap)
  also have "\<dots> = (\<Sum>j = 0..<n. x ! j * (if m = j then of_nat n else 0))"
    by (rule sum.cong) (simp_all add: sum_distrib_left [symmetric] unity_root_sum n)
  also have "\<dots> = x ! m * of_nat n"
    using n by (simp add: if_distrib [of "\<lambda>v. _ * v"] sum.delta cong: if_cong)
  finally show ?thesis
    using n by (simp add: idft_def n_def [symmetric])
qed

lemma ifft_fft:
  assumes "x \<noteq> []"
  shows "\<exists>X. fft x = Inr X \<and> length X = length x \<and> ifft X = Inr x"
proof -
  define X where "X = map (dft x) [0..<length x]"
  have X: "fft x = Inr X" "length X = length x" using assms by (simp_all add: fft_def X_def)
  have "X \<noteq> []" using assms X(2) by auto
  moreover have "map (idft X) [0..<length X] = x"
    by (rule nth_equalityI) (simp_all add: X(2), simp add: X_def idft_dft)
  ultimately have "ifft X = Inr x" by (simp add: ifft_def)
  with X show ?thesis by blast
qed

subsection \<open>Outcomes of the whole run\<close>

lemma script_closed:
  assumes "E_c p \<noteq> 0" and "2 \<le> samples p" and "duration p \<noteq> 0"
  shows "\<exists>t fr mag. t_grid p = Inr t \<and> length t = nat (samples p) \<and>
           frequencies t = Inr fr \<and> length fr = nat (samples p) div 2 \<and>
           modulated_magnitude p t = Inr mag \<and> length mag = nat (samples p) div 2 \<and>
           script p =
             Inr \<lparr>w_f_m = f_m p, w_f_c = f_c p, w_modulation_index = E_m p / E_c p, w_t = t,
                  w_baseband_signal = baseband_signal p t,
                  w_carrier_signal = carrier_signal p t,
                  w_modulated_signal = modulated_signal p t,
                  w_upper_envelope = upper_envelope p t,
                  w_lower_envelope = lower_envelope p t,
                  w_frequencies = fr, w_modulated_magnitude = mag\<rparr>"
proof -
  define n where "n = nat (samples p)"
  from t_grid_step [OF assms(2)] obtain t where t: "t_grid p = Inr t" "length t = n"
    and T: "t ! 1 - t ! 0 = duration p / real (n - 1)"
    unfolding n_def by blast
  have n: "2 \<le> n" using assms(2) by (simp add: n_def)
  then have Tnz: "t ! 1 - t ! 0 \<noteq> 0" using T assms(3) by simp
  have ne: "t \<noteq> []" using n t(2) by auto
  have len: "2 \<le> length t" using n t(2) by simp
  note fr = frequencies_closed [OF len Tnz]
  note mag = modulated_magnitude_closed [OF ne, of p]
  show ?thesis
    using assms(1) t
    by (simp add: script_def modulation_index_def fr mag n_def [symmetric])
qed

lemma script_zero_divisor: "E_c p = 0 \<Longrightarrow> script p = Inl (Raised ZeroDivisionError)"
  by (simp add: script_def modulation_index_def)

lemma script_negative_samples:
  "E_c p \<noteq> 0 \<Longrightarrow> samples p < 0 \<Longrightarrow> script p = Inl (Raised ValueError)"
  by (simp add: script_def modulation_index_def t_grid_def linspace_neg)

lemma script_short_grid:
  assumes "E_c p \<noteq> 0" and "0 \<le> samples p" and "samples p < 2"
  shows "script p = Inl (Raised IndexError)"
proof -
  from t_grid_returns [OF assms(2)] obtain t
    where t: "t_grid p = Inr t" "length t = nat (samples p)" by blast
  then have "length t < 2" using assms(3) by simp
  then show ?thesis
    using assms(1) t by (simp add: script_def modulation_index_def frequencies_short)
qed

lemma script_zero_duration:
  assumes "E_c p \<noteq> 0" and "2 \<le> samples p" and "duration p = 0"
  shows "script p = Inl NonFinite"
proof -
  from t_grid_step [OF assms(2)] obtain t where t: "t_grid p = Inr t" "length t = nat (samples p)"
    and T: "t ! 1 - t ! 0 = duration p / real (nat (samples p) - 1)"
    by blast
  have len: "2 \<le> length t" using assms(2) t(2) by simp
  have "t ! 1 - t ! 0 = 0" using T assms(3) by simp
  from frequencies_zero_step [OF len this] show ?thesis
    using assms(1) t by (simp add: script_def modulation_index_def)
qed

subsection \<open>The synthesizer\<close>

text \<open>
  C8. The derived scalars are \<open>f_m = omega_m / (2 \<pi>)\<close>, \<open>f_c = omega_c / (2 \<pi>)\<close> and,
  for a nonzero \<open>E_c\<close>, \<open>modulation_index = E_m / E_c\<close>; the index is exactly 1 when
  \<open>E_m = E_c\<close> and \<open>2 / 3\<close> for \<open>E_m = 100\<close>, \<open>E_c = 150\<close>.
\<close>

theorem derived_scalars:
  assumes "E_c p \<noteq> 0"
  shows "f_m p = omega_m p / (2 * pi) \<and> f_c p = omega_c p / (2 * pi) \<and>
         modulation_index p = Inr (E_m p / E_c p) \<and>
         (E_m p = E_c p \<longrightarrow> modulation_index p = Inr 1) \<and>
         (E_m p = 100 \<and> E_c p = 150 \<longrightarrow> modulation_index p = Inr (2 / 3))"
  using assms by (simp add: f_m_def f_c_def modulation_index_def)

theorem derived_scalars_witness:
  "E_c source_params \<noteq> 0 \<and> modulation_index source_params = Inr (2 / 3) \<and>
   f_m source_params = 100 / pi \<and> f_c source_params = 1500 / pi \<and>
   E_c (source_params\<lparr>E_m := 150\<rparr>) \<noteq> 0 \<and>
   modulation_index (source_params\<lparr>E_m := 150\<rparr>) = Inr 1"
  using derived_scalars [of source_params] derived_scalars [of "source_params\<lparr>E_m := 150\<rparr>"]
  by (simp add: source_params_def)

text \<open>
  C1. For a non-negative sample count the time grid is returned, the modulated array has
  one entry per sample, and at every index \<open>i\<close> below the sample count the baseband
  entry is \<open>E_m * sin (omega_m * t[i])\<close> and the modulated entry is the product
  \<open>(E_c + baseband[i]) * sin (omega_c * t[i])\<close>. No sign condition on the four signal
  parameters is needed.
\<close>

theorem modulated_signal_pointwise:
  assumes "0 \<le> samples p" and "i < nat (samples p)"
  shows "\<exists>t. t_grid p = Inr t \<and> length (modulated_signal p t) = nat (samples p) \<and>
             baseband_signal p t ! i = E_m p * sin (omega_m p * t ! i) \<and>
             modulated_signal p t ! i =
               (E_c p + baseband_signal p t ! i) * sin (omega_c p * t ! i)"
proof -
  from t_grid_returns [OF assms(1)] obtain t
    where t: "t_grid p = Inr t" "length t = nat (samples p)" by blast
  with assms(2) have "i < length t" by simp
  then show ?thesis
    using t by (simp add: nth_baseband_signal nth_modulated_signal)
qed

theorem modulated_signal_pointwise_witness:
  "(0::int) \<le> samples source_params \<and> (7::nat) < nat (samples source_params) \<and>
   (\<exists>t. t_grid source_params = Inr t \<and>
        modulated_signal source_params t ! 7 =
          (E_c source_params + baseband_signal source_params t ! 7) *
          sin (omega_c source_params * t ! 7))"
proof -
  have h: "(0::int) \<le> samples source_params" "(7::nat) < nat (samples source_params)"
    by (simp_all add: source_params_def)
  from modulated_signal_pointwise [OF h] show ?thesis
    using h by blast
qed

text \<open>
  C5. For at least two samples and a positive duration the time grid is returned with
  \<open>t[i] = D * i / (N - 1)\<close> at every index; it is strictly increasing, consecutive
  entries differ by \<open>D / (N - 1)\<close>, it starts at 0 and ends at \<open>D\<close>, and the time
  grid, the baseband, the carrier and the modulated signal all have \<open>N\<close> entries.
\<close>

theorem t_grid_uniform:
  assumes "2 \<le> samples p" and "0 < duration p"
  shows "\<exists>t. t_grid p = Inr t \<and>
             length t = nat (samples p) \<and>
             length (baseband_signal p t) = nat (samples p) \<and>
             length (carrier_signal p t) = nat (samples p) \<and>
             length (modulated_signal p t) = nat (samples p) \<and>
             (\<forall>i < nat (samples p). t ! i = duration p * real i / real (nat (samples p) - 1)) \<and>
             sorted_wrt (<) t \<and>
             (\<forall>i. Suc i < nat (samples p) \<longrightarrow>
                  t ! Suc i - t ! i = duration p / real (nat (samples p) - 1)) \<and>
             t ! 0 = 0 \<and> t ! (nat (samples p) - 1) = duration p"
proof -
  define n where "n = nat (samples p)"
  define h where "h = duration p / real (n - 1)"
  define t where "t = map (\<lambda>i. real i * h) [0..<n]"
  have n: "2 \<le> n" "real_of_int (samples p - 1) = real (n - 1)"
    using assms(1) by (auto simp add: n_def)
  have h: "0 < h" using assms(2) n by (simp add: h_def)
  have tg: "t_grid p = Inr t"
    using assms(1) n by (simp add: t_grid_closed t_def h_def n_def)
  have len: "length t = n" by (simp add: t_def)
  have nth: "t ! i = real i * h" if "i < n" for i using that by (simp add: t_def)
  have inc: "sorted_wrt (<) t"
    unfolding sorted_wrt_iff_nth_less using h by (simp add: len nth)
  have step: "t ! Suc i - t ! i = h" if "Suc i < n" for i
    using that by (simp add: nth algebra_simps)
  have last: "t ! (n - 1) = duration p" using n by (simp add: nth h_def)
  have first: "t ! 0 = 0" using n by (simp add: nth)
  show ?thesis
    using tg len nth inc step last first
    by (simp add: n_def [symmetric] h_def)
qed

theorem t_grid_uniform_witness:
  "(2::int) \<le> samples source_params \<and> 0 < duration source_params \<and>
   (\<exists>t. t_grid source_params = Inr t \<and>
        length t = 1000 \<and>
        length (baseband_signal source_params t) = 1000 \<and>
        length (carrier_signal source_params t) = 1000 \<and>
        length (modulated_signal source_params t) = 1000 \<and>
        sorted_wrt (<) t \<and> t ! 0 = 0 \<and> t ! 1 = 1 / 9990 \<and> t ! 2 - t ! 1 = 1 / 9990 \<and>
        t ! 999 = 1 / 10)"
proof -
  have h: "(2::int) \<le> samples source_params" "0 < duration source_params"
    by (simp_all add: source_params_def)
  have v: "nat (samples source_params) = 1000" "duration source_params = 1 / 10"
    by (simp_all add: source_params_def)
  from t_grid_uniform [OF h] obtain t where t: "t_grid source_params = Inr t"
    "length t = 1000"
    "length (baseband_signal source_params t) = 1000"
    "length (carrier_signal source_params t) = 1000"
    "length (modulated_signal source_params t) = 1000"
    "\<forall>i<1000. t ! i = 1 / 10 * real i / real (1000 - 1)"
    "sorted_wrt (<) t"
    "\<forall>i. Suc i < 1000 \<longrightarrow> t ! Suc i - t ! i = 1 / 10 / real (1000 - 1)"
    "t ! 0 = 0" "t ! (1000 - 1) = 1 / 10"
    unfolding v by blast
  from t(6) have "t ! 1 = 1 / 9990" by simp
  moreover from t(8) have "t ! Suc 1 - t ! 1 = 1 / 9990" by simp
  then have "t ! 2 - t ! 1 = 1 / 9990" by (simp add: numeral_2_eq_2)
  moreover from t(10) have "t ! 999 = 1 / 10" by simp
  ultimately show ?thesis using h t by blast
qed

text \<open>
  C6. At every index the upper envelope is \<open>E_c + baseband[i]\<close>, the lower envelope
  is its negation, and the two add up to zero, for all parameter values.
\<close>

theorem envelopes_negate:
  assumes "0 \<le> samples p" and "i < nat (samples p)"
  shows "\<exists>t. t_grid p = Inr t \<and>
             upper_envelope p t ! i = E_c p + baseband_signal p t ! i \<and>
             lower_envelope p t ! i = - upper_envelope p t ! i \<and>
             upper_envelope p t ! i + lower_envelope p t ! i = 0"
proof -
  from t_grid_returns [OF assms(1)] obtain t
    where t: "t_grid p = Inr t" "length t = nat (samples p)" by blast
  with assms(2) have "i < length t" by simp
  then show ?thesis
    using t by (simp add: nth_upper_envelope nth_lower_envelope)
qed

theorem envelopes_negate_witness:
  "(0::int) \<le> samples source_params \<and> (7::nat) < nat (samples source_params) \<and>
   (\<exists>t. t_grid source_params = Inr t \<and>
        upper_envelope source_params t ! 7 + lower_envelope source_params t ! 7 = 0)"
proof -
  have h: "(0::int) \<le> samples source_params" "(7::nat) < nat (samples source_params)"
    by (simp_all add: source_params_def)
  from envelopes_negate [OF h] show ?thesis
    using h by blast
qed

text \<open>
  C10. When \<open>0 \<le> E_m \<le> E_c\<close> the modulated signal stays between the two envelopes at
  every index: \<open>lower[i] \<le> modulated[i] \<le> upper[i]\<close>.
\<close>

theorem envelope_bounds:
  assumes "0 \<le> E_m p" and "E_m p \<le> E_c p" and "0 \<le> samples p" and "i < nat (samples p)"
  shows "\<exists>t. t_grid p = Inr t \<and>
             lower_envelope p t ! i \<le> modulated_signal p t ! i \<and>
             modulated_signal p t ! i \<le> upper_envelope p t ! i"
proof -
  from t_grid_returns [OF assms(3)] obtain t
    where t: "t_grid p = Inr t" "length t = nat (samples p)" by blast
  with assms(4) have i: "i < length t" by simp
  define u where "u = E_c p + baseband_signal p t ! i"
  define s where "s = sin (omega_c p * t ! i)"
  have "- E_m p \<le> E_m p * sin (omega_m p * t ! i)"
    using assms(1) sin_ge_minus_one [of "omega_m p * t ! i"]
    by (metis mult.right_neutral mult_left_mono mult_minus_right)
  then have u0: "0 \<le> u"
    using assms(2) i by (simp add: u_def nth_baseband_signal)
  have s: "- 1 \<le> s" "s \<le> 1" by (simp_all add: s_def)
  have "u * s \<le> u * 1" using u0 s(2) by (rule mult_left_mono[rotated])
  moreover have "u * (- 1) \<le> u * s" using u0 s(1) by (rule mult_left_mono[rotated])
  ultimately have "- u \<le> u * s \<and> u * s \<le> u" by simp
  then show ?thesis
    using t i by (simp add: nth_upper_envelope nth_lower_envelope nth_modulated_signal u_def s_def)
qed

theorem envelope_bounds_witness:
  "0 \<le> E_m source_params \<and> E_m source_params \<le> E_c source_params \<and>
   (0::int) \<le> samples source_params \<and> (7::nat) < nat (samples source_params) \<and>
   (\<exists>t. t_grid source_params = Inr t \<and>
        lower_envelope source_params t ! 7 \<le> modulated_signal source_params t ! 7 \<and>
        modulated_signal source_params t ! 7 \<le> upper_envelope source_params t ! 7)"
proof -
  have h: "0 \<le> E_m source_params" "E_m source_params \<le> E_c source_params"
    "(0::int) \<le> samples source_params" "(7::nat) < nat (samples source_params)"
    by (simp_all add: source_params_def)
  from envelope_bounds [OF h] show ?thesis
    using h by blast
qed

subsection \<open>The spectral analyzer\<close>

text \<open>
  C2. For every bin \<open>k\<close> below \<open>N div 2\<close> the magnitude spectrum is
  \<open>(2 / N) * |DFT(modulated)[k]|\<close>, the transform written out as the sum
  \<open>\<Sum>n<N. modulated[n] * exp (- 2 \<pi> \<i> k n / N)\<close>. The same factor \<open>2 / N\<close> scales the
  DC bin: \<open>magnitude[0] = (2 / N) * |\<Sum>n<N. modulated[n]|\<close>.
\<close>

theorem magnitude_uniform_scaling:
  assumes "k < nat (samples p) div 2"
  shows "\<exists>t mag. t_grid p = Inr t \<and> modulated_magnitude p t = Inr mag \<and>
                length mag = nat (samples p) div 2 \<and>
                mag ! k = 2 / real (nat (samples p)) *
                  cmod (\<Sum>n = 0..<nat (samples p).
                          complex_of_real (modulated_signal p t ! n) *
                          cis (- (2 * pi * real k * real n / real (nat (samples p))))) \<and>
                mag ! 0 = 2 / real (nat (samples p)) * \<bar>sum_list (modulated_signal p t)\<bar>"
proof -
  define n where "n = nat (samples p)"
  have "0 \<le> samples p" using assms by (cases "0 \<le> samples p") auto
  from t_grid_returns [OF this] obtain t where t: "t_grid p = Inr t" "length t = n"
    unfolding n_def by blast
  have k: "k < n div 2" using assms by (simp add: n_def)
  then have ne: "t \<noteq> []" using t(2) by auto
  define x where "x = map complex_of_real (modulated_signal p t)"
  define mag where "mag = map (\<lambda>k. 2 / real n * cmod (dft x k)) [0..<n div 2]"
  have mag: "modulated_magnitude p t = Inr mag"
    using modulated_magnitude_closed [OF ne, of p] by (simp add: mag_def x_def t(2))
  have lx: "length x = n" by (simp add: x_def t(2))
  have "mag ! k = 2 / real n * cmod (dft x k)" using k by (simp add: mag_def)
  also have "dft x k = (\<Sum>m = 0..<n. complex_of_real (modulated_signal p t ! m) *
                          cis (- (2 * pi * real k * real m / real n)))"
    unfolding dft_def lx by (rule sum.cong) (simp_all add: x_def t(2))
  finally have bin: "mag ! k = 2 / real n *
      cmod (\<Sum>m = 0..<n. complex_of_real (modulated_signal p t ! m) *
                          cis (- (2 * pi * real k * real m / real n)))" .
  have "mag ! 0 = 2 / real n * cmod (dft x 0)" using k by (simp add: mag_def)
  then have dc: "mag ! 0 = 2 / real n * \<bar>sum_list (modulated_signal p t)\<bar>"
    by (simp add: x_def dft_zero_bin)
  have "length mag = n div 2" by (simp add: mag_def)
  with t mag bin dc show ?thesis by (simp add: n_def [symmetric])
qed

theorem magnitude_uniform_scaling_witness:
  "(0::nat) < nat (samples source_params) div 2 \<and>
   (\<exists>t mag. t_grid source_params = Inr t \<and> modulated_magnitude source_params t = Inr mag \<and>
            length mag = nat (samples source_params) div 2 \<and>
            mag ! 0 = 2 / real (nat (samples source_params)) *
                      \<bar>sum_list (modulated_signal source_params t)\<bar>)"
proof -
  have h: "(0::nat) < nat (samples source_params) div 2"
    by (simp add: source_params_def)
  from magnitude_uniform_scaling [OF h] show ?thesis
    using h by blast
qed

text \<open>
  C3. For at least two samples and a positive duration the frequency axis is returned
  with \<open>N div 2\<close> entries, \<open>frequencies[k] = k / (N * T)\<close> for every \<open>k\<close> below
  \<open>N div 2\<close> where \<open>T = t[1] - t[0]\<close>; it is strictly increasing, its first entry is
  0 and no entry is negative.
\<close>

theorem frequencies_axis:
  assumes "2 \<le> samples p" and "0 < duration p"
  shows "\<exists>t fr. t_grid p = Inr t \<and> frequencies t = Inr fr \<and>
               length fr = nat (samples p) div 2 \<and>
               (\<forall>k < nat (samples p) div 2.
                    fr ! k = real k / (real (nat (samples p)) * (t ! 1 - t ! 0))) \<and>
               sorted_wrt (<) fr \<and> fr ! 0 = 0 \<and> (\<forall>x \<in> set fr. 0 \<le> x)"
proof -
  define n where "n = nat (samples p)"
  from t_grid_step [OF assms(1)] obtain t where t: "t_grid p = Inr t" "length t = n"
    and T: "t ! 1 - t ! 0 = duration p / real (n - 1)"
    unfolding n_def by blast
  have n: "2 \<le> n" using assms(1) by (simp add: n_def)
  define c where "c = 1 / (real n * (t ! 1 - t ! 0))"
  define fr where "fr = map (\<lambda>k. real k * c) [0..<n div 2]"
  have Tpos: "0 < t ! 1 - t ! 0" using T assms(2) n by simp
  then have c: "0 < c" using n by (simp add: c_def)
  have fr: "frequencies t = Inr fr"
    using frequencies_closed [of t] n t(2) Tpos by (simp add: fr_def c_def)
  have len: "length fr = n div 2" by (simp add: fr_def)
  have nth: "fr ! k = real k / (real n * (t ! 1 - t ! 0))" if "k < n div 2" for k
    using that by (simp add: fr_def c_def)
  have nthc: "fr ! k = real k * c" if "k < n div 2" for k
    using that by (simp add: fr_def)
  have inc: "sorted_wrt (<) fr"
    unfolding sorted_wrt_iff_nth_less using c by (simp add: len nthc)
  have zero: "fr ! 0 = 0" using n nth [of 0] by simp
  have nonneg: "0 \<le> x" if "x \<in> set fr" for x
    using that c by (auto simp add: fr_def)
  show ?thesis
    using t fr len nth inc zero nonneg by (simp add: n_def [symmetric])
qed

theorem frequencies_axis_witness:
  "(2::int) \<le> samples source_params \<and> 0 < duration source_params \<and>
   (\<exists>t fr. t_grid source_params = Inr t \<and> frequencies t = Inr fr \<and>
           length fr = 500 \<and> fr ! 3 = 3 / (1000 * (t ! 1 - t ! 0)) \<and>
           sorted_wrt (<) fr \<and> fr ! 0 = 0)"
proof -
  have h: "(2::int) \<le> samples source_params" "0 < duration source_params"
    by (simp_all add: source_params_def)
  have v: "nat (samples source_params) = 1000"
    by (simp add: source_params_def)
  from frequencies_axis [OF h] obtain t fr where t: "t_grid source_params = Inr t"
    "frequencies t = Inr fr" "length fr = 1000 div 2"
    "\<forall>k<1000 div 2. fr ! k = real k / (real 1000 * (t ! 1 - t ! 0))"
    "sorted_wrt (<) fr" "fr ! 0 = 0"
    unfolding v by blast
  from t(4) have "fr ! 3 = 3 / (1000 * (t ! 1 - t ! 0))" by simp
  moreover from t(3) have "length fr = 500" by simp
  ultimately show ?thesis using h t by blast
qed

text \<open>
  C7. For at least one sample the transform of the modulated signal is returned with
  \<open>N\<close> bins, the inverse transform of these bins is returned as well, and its real
  part is the modulated signal again.
\<close>

theorem fft_round_trip:
  assumes "0 < samples p"
  shows "\<exists>t X Y. t_grid p = Inr t \<and> modulated_fft p t = Inr X \<and>
                length X = nat (samples p) \<and> ifft X = Inr Y \<and>
                map Re Y = modulated_signal p t"
proof -
  have "0 \<le> samples p" using assms by simp
  from t_grid_returns [OF this] obtain t
    where t: "t_grid p = Inr t" "length t = nat (samples p)" by blast
  define x where "x = map complex_of_real (modulated_signal p t)"
  have "length x = nat (samples p)" by (simp add: x_def t(2))
  then have "x \<noteq> []" using assms by auto
  from ifft_fft [OF this] obtain X
    where X: "fft x = Inr X" "length X = length x" "ifft X = Inr x" by blast
  have "map Re x = modulated_signal p t" by (simp add: x_def comp_def)
  moreover have "length x = nat (samples p)" by (simp add: x_def t(2))
  ultimately show ?thesis
    using t X by (auto simp add: modulated_fft_def x_def [symmetric])
qed

theorem fft_round_trip_witness:
  "0 < samples source_params \<and>
   (\<exists>t X Y. t_grid source_params = Inr t \<and> modulated_fft source_params t = Inr X \<and>
            length X = nat (samples source_params) \<and> ifft X = Inr Y \<and>
            map Re Y = modulated_signal source_params t)"
proof -
  have h: "0 < samples source_params" by (simp add: source_params_def)
  from fft_round_trip [OF h] show ?thesis
    using h by blast
qed

subsection \<open>The whole run\<close>

text \<open>
  C9. With two samples, a nonzero duration and a nonzero \<open>E_c\<close> the script runs to its
  end: the time grid is \<open>[0, duration]\<close>, the five signal arrays have two entries each,
  the frequency axis is \<open>[0]\<close> and the magnitude spectrum has one entry.
\<close>

theorem two_samples_run:
  assumes "samples p = 2" and "duration p \<noteq> 0" and "E_c p \<noteq> 0"
  shows "\<exists>w. script p = Inr w \<and> w_t w = [0, duration p] \<and>
             length (w_baseband_signal w) = 2 \<and> length (w_carrier_signal w) = 2 \<and>
             length (w_modulated_signal w) = 2 \<and>
             length (w_upper_envelope w) = 2 \<and> length (w_lower_envelope w) = 2 \<and>
             w_frequencies w = [0] \<and> length (w_modulated_magnitude w) = 1"
proof -
  have s2: "2 \<le> samples p" using assms(1) by simp
  from script_closed [OF assms(3) s2 assms(2)] obtain t fr mag
    where t: "t_grid p = Inr t" "length t = nat (samples p)"
      and fr: "frequencies t = Inr fr" "length fr = nat (samples p) div 2"
      and mag: "modulated_magnitude p t = Inr mag" "length mag = nat (samples p) div 2"
      and run: "script p =
             Inr \<lparr>w_f_m = f_m p, w_f_c = f_c p, w_modulation_index = E_m p / E_c p, w_t = t,
                  w_baseband_signal = baseband_signal p t,
                  w_carrier_signal = carrier_signal p t,
                  w_modulated_signal = modulated_signal p t,
                  w_upper_envelope = upper_envelope p t,
                  w_lower_envelope = lower_envelope p t,
                  w_frequencies = fr, w_modulated_magnitude = mag\<rparr>"
    by blast
  have tt: "t = [0, duration p]"
    using t(1) assms(1) by (simp add: t_grid_closed upt_rec)
  have len: "2 \<le> length t" and Tnz: "t ! 1 - t ! 0 \<noteq> 0"
    using tt assms(2) by simp_all
  have "fr = [0]"
    using fr(1) frequencies_closed [OF len Tnz] by (simp add: tt)
  then show ?thesis
    using run t(2) mag(2) assms(1) tt by simp
qed

theorem two_samples_run_witness:
  "samples (source_params\<lparr>samples := 2\<rparr>) = 2 \<and>
   duration (source_params\<lparr>samples := 2\<rparr>) \<noteq> 0 \<and>
   E_c (source_params\<lparr>samples := 2\<rparr>) \<noteq> 0 \<and>
   (\<exists>w. script (source_params\<lparr>samples := 2\<rparr>) = Inr w \<and> w_t w = [0, 1 / 10] \<and>
        w_frequencies w = [0] \<and> length (w_modulated_magnitude w) = 1)"
proof -
  let ?p = "source_params\<lparr>samples := 2\<rparr>"
  have h: "samples ?p = 2" "duration ?p \<noteq> 0" "E_c ?p \<noteq> 0"
    by (simp_all add: source_params_def)
  have d: "duration ?p = 1 / 10" by (simp add: source_params_def)
  from two_samples_run [OF h] show ?thesis
    using h unfolding d by blast
qed

text \<open>
  C4, as amended. The script checks none of its parameters; a run stops only where an
  operation it uses stops. \<open>E_c = 0\<close> raises ZeroDivisionError in the modulation index, a
  negative sample count raises ValueError in \<open>linspace\<close>, a sample count of 0 or 1
  raises IndexError at \<open>t[1]\<close> in the spectral analysis, and a zero duration with at
  least two samples raises nothing but leaves a non-finite frequency axis. Every other
  input, whatever the signs of \<open>E_m\<close>, \<open>omega_m\<close>, \<open>omega_c\<close> and of a nonzero duration,
  runs to the end.
\<close>

theorem script_failures:
  "(case script p of Inl e \<Rightarrow> Some e | Inr w \<Rightarrow> None) =
     (if E_c p = 0 then Some (Raised ZeroDivisionError)
      else if samples p < 0 then Some (Raised ValueError)
      else if samples p < 2 then Some (Raised IndexError)
      else if duration p = 0 then Some NonFinite
      else None)"
proof -
  consider "E_c p = 0" | "E_c p \<noteq> 0" "samples p < 0"
    | "E_c p \<noteq> 0" "0 \<le> samples p" "samples p < 2"
    | "E_c p \<noteq> 0" "2 \<le> samples p" "duration p = 0"
    | "E_c p \<noteq> 0" "2 \<le> samples p" "duration p \<noteq> 0"
    by linarith
  then show ?thesis
  proof cases
    case 1
    then show ?thesis by (simp add: script_zero_divisor)
  next
    case 2
    then show ?thesis by (simp add: script_negative_samples)
  next
    case 3
    then show ?thesis by (simp add: script_short_grid)
  next
    case 4
    then show ?thesis by (simp add: script_zero_duration)
  next
    case 5
    from script_closed [OF this] obtain w where "script p = Inr w" by blast
    with 5 show ?thesis by simp
  qed
qed

text \<open>
  The script run with the source's literals, except for a negative baseband amplitude,
  returns a result: no error is raised for this non-positive amplitude.
\<close>

theorem negative_amplitude_not_rejected:
  "\<not> isl (script \<lparr>E_m = - 100, E_c = 150, omega_m = 200, omega_c = 3000,
                    duration = 1 / 10, samples = 1000\<rparr>)"
proof -
  let ?p = "\<lparr>E_m = - 100, E_c = 150, omega_m = 200, omega_c = 3000,
             duration = 1 / 10, samples = 1000\<rparr>"
  have "E_c ?p \<noteq> 0" "2 \<le> samples ?p" "duration ?p \<noteq> 0" by simp_all
  from script_closed [OF this] obtain w where "script ?p = Inr w" by blast
  then show ?thesis by simp
qed

end
